theory Spec2Isabelle
  imports Complex_Main
begin

section \<open>JavaScript numbers\<close>

text \<open>
  A JavaScript number is an IEEE 754 binary64 value. A finite value is carried by the
  rational it denotes; \<open>Finite 0\<close> is the positive zero and \<open>NegZero\<close> the negative one.
  Every arithmetic result goes through \<open>round64\<close>, which rounds an exact rational to the
  nearest representable value, ties to even, with gradual underflow below \<open>2^-1022\<close> and
  overflow to an infinity from \<open>2^1024 - 2^970\<close> on (the rounded value \<open>m * 2^qe\<close>
  reaches \<open>2^1024\<close> exactly when the exponent does, or when the significand rounds up
  to \<open>2^53\<close> at exponent 1023).
\<close>

datatype jsnum = NaN | PosInf | NegInf | NegZero | Finite rat

definition pow2 :: "int \<Rightarrow> rat" where
  "pow2 k = (if 0 \<le> k then 2 ^ nat k else 1 / 2 ^ nat (- k))"

function bit_length :: "int \<Rightarrow> nat" where
  "bit_length n = (if n \<le> 0 then 0 else Suc (bit_length (n div 2)))"
  by pat_completeness auto
termination
  by (relation "measure nat") auto

declare bit_length.simps [simp del]

text \<open>The exponent \<open>e\<close> with \<open>2^e \<le> a < 2^(e+1)\<close>, for a positive \<open>a\<close>.\<close>

definition ilog2 :: "rat \<Rightarrow> int" where
  "ilog2 a =
     (if 1 \<le> a then int (bit_length \<lfloor>a\<rfloor>) - 1
      else - int (bit_length (\<lceil>1 / a\<rceil> - 1)))"

definition round_half_even :: "rat \<Rightarrow> int" where
  "round_half_even x =
     (let f = \<lfloor>x\<rfloor>; d = x - of_int f
      in if d < 1 / 2 then f
         else if 1 / 2 < d then f + 1
         else if even f then f else f + 1)"

definition round64 :: "rat \<Rightarrow> jsnum" where
  "round64 q =
     (if q = 0 then Finite 0
      else
        let a = \<bar>q\<bar>;
            e = ilog2 a;
            qe = max (e - 52) (- 1074);
            m = round_half_even (a / pow2 qe);
            r = of_int m * pow2 qe
        in if 1024 \<le> e \<or> (e = 1023 \<and> m = 2 ^ 53) then (if q < 0 then NegInf else PosInf)
           else if m = 0 then (if q < 0 then NegZero else Finite 0)
           else Finite (if q < 0 then - r else r))"

fun is_zero :: "jsnum \<Rightarrow> bool" where
  "is_zero NegZero = True"
| "is_zero (Finite q) = (q = 0)"
| "is_zero _ = False"

fun is_inf :: "jsnum \<Rightarrow> bool" where
  "is_inf PosInf = True"
| "is_inf NegInf = True"
| "is_inf _ = False"

fun is_neg :: "jsnum \<Rightarrow> bool" where
  "is_neg NegInf = True"
| "is_neg NegZero = True"
| "is_neg (Finite q) = (q < 0)"
| "is_neg _ = False"

fun magnitude :: "jsnum \<Rightarrow> rat" where
  "magnitude (Finite q) = q"
| "magnitude _ = 0"

text \<open>The operator \<open>*\<close> on two numbers.\<close>

definition js_mul :: "jsnum \<Rightarrow> jsnum \<Rightarrow> jsnum" where
  "js_mul x y =
     (if x = NaN \<or> y = NaN then NaN
      else if is_inf x \<or> is_inf y then
        (if is_zero x \<or> is_zero y then NaN
         else if is_neg x \<noteq> is_neg y then NegInf else PosInf)
      else if is_zero x \<or> is_zero y then
        (if is_neg x \<noteq> is_neg y then NegZero else Finite 0)
      else round64 (magnitude x * magnitude y))"

text \<open>The operator \<open>+\<close> on two numbers.\<close>

definition js_add :: "jsnum \<Rightarrow> jsnum \<Rightarrow> jsnum" where
  "js_add x y =
     (if x = NaN \<or> y = NaN then NaN
      else if is_inf x then (if is_inf y \<and> x \<noteq> y then NaN else x)
      else if is_inf y then y
      else if x = NegZero \<and> y = NegZero then NegZero
      else round64 (magnitude x + magnitude y))"

section \<open>JavaScript values\<close>

text \<open>
  The values a parsed JSON body is made of, together with \<open>undefined\<close>, which a
  read of an absent property yields. An object is the list of its own properties; a
  property is read at its first binding.
\<close>

datatype jsval =
    JUndefined
  | JNull
  | JBool bool
  | JNum jsnum
  | JStr string
  | JArr "jsval list"
  | JObj "(string \<times> jsval) list"

datatype error = TypeError | StoreError

definition bindE :: "error + 'a \<Rightarrow> ('a \<Rightarrow> error + 'b) \<Rightarrow> error + 'b" where
  "bindE r f = (case r of Inl e \<Rightarrow> Inl e | Inr x \<Rightarrow> f x)"

fun mapE :: "('a \<Rightarrow> error + 'b) \<Rightarrow> 'a list \<Rightarrow> error + 'b list" where
  "mapE f [] = Inr []"
| "mapE f (x # xs) = bindE (f x) (\<lambda>y. bindE (mapE f xs) (\<lambda>ys. Inr (y # ys)))"

text \<open>ToBoolean.\<close>

fun truthy :: "jsval \<Rightarrow> bool" where
  "truthy JUndefined = False"
| "truthy JNull = False"
| "truthy (JBool b) = b"
| "truthy (JNum n) = (n \<noteq> NaN \<and> \<not> is_zero n)"
| "truthy (JStr s) = (s \<noteq> [])"
| "truthy (JArr _) = True"
| "truthy (JObj _) = True"

text \<open>The operator \<open>||\<close>, on values and on two numbers.\<close>

definition js_or :: "jsval \<Rightarrow> jsval \<Rightarrow> jsval" where
  "js_or a b = (if truthy a then a else b)"

definition or_num :: "jsnum \<Rightarrow> jsnum \<Rightarrow> jsnum" where
  "or_num a b = (if truthy (JNum a) then a else b)"

text \<open>
  A property read \<open>v.k\<close>, for the property names the server reads (none of them is a
  property of a prototype): it raises a TypeError on \<open>undefined\<close> and \<open>null\<close>, yields
  the own property of an object, and \<open>undefined\<close> otherwise.
\<close>

fun get_prop :: "jsval \<Rightarrow> string \<Rightarrow> error + jsval" where
  "get_prop JUndefined k = Inl TypeError"
| "get_prop JNull k = Inl TypeError"
| "get_prop (JObj kvs) k = Inr (case map_of kvs k of Some v \<Rightarrow> v | None \<Rightarrow> JUndefined)"
| "get_prop _ k = Inr JUndefined"

subsection \<open>Strings to numbers\<close>

text \<open>
  A string is a list of code units below 256. The white space that \<open>trim\<close> and the
  conversion to a number strip is, in that range, the tab, the line feed, the vertical
  tab, the form feed, the carriage return, the space and the no-break space.
\<close>

definition is_ws :: "char \<Rightarrow> bool" where
  "is_ws c = (of_char c \<in> {9, 10, 11, 12, 13, 32, 160 :: nat})"

definition js_trim :: "string \<Rightarrow> string" where
  "js_trim s = rev (dropWhile is_ws (rev (dropWhile is_ws s)))"

definition digit_val :: "char \<Rightarrow> int option" where
  "digit_val c =
     (let n = of_char c :: int
      in if 48 \<le> n \<and> n \<le> 57 then Some (n - 48)
         else if 97 \<le> n \<and> n \<le> 102 then Some (n - 87)
         else if 65 \<le> n \<and> n \<le> 70 then Some (n - 55)
         else None)"

text \<open>The value of a non-empty run of digits in a base; \<open>None\<close> for anything else.\<close>

fun digits_from :: "int \<Rightarrow> int \<Rightarrow> string \<Rightarrow> int option" where
  "digits_from base acc [] = Some acc"
| "digits_from base acc (c # cs) =
     (case digit_val c of
        None \<Rightarrow> None
      | Some d \<Rightarrow> if d < base then digits_from base (acc * base + d) cs else None)"

definition digits :: "int \<Rightarrow> string \<Rightarrow> int option" where
  "digits base s = (if s = [] then None else digits_from base 0 s)"

definition is_exp_char :: "char \<Rightarrow> bool" where
  "is_exp_char c = (c = CHR ''e'' \<or> c = CHR ''E'')"

text \<open>An exponent part: empty, or \<open>e\<close> with an optional sign and at least one digit.\<close>

definition exponent :: "string \<Rightarrow> int option" where
  "exponent s =
     (case s of
        [] \<Rightarrow> Some 0
      | c # t \<Rightarrow>
          (case t of
             [] \<Rightarrow> None
           | d # u \<Rightarrow>
               if d = CHR ''-'' then map_option uminus (digits 10 u)
               else if d = CHR ''+'' then digits 10 u
               else digits 10 t))"

text \<open>
  An unsigned decimal literal: digits with an optional fraction, or a fraction alone,
  then an optional exponent.
\<close>

definition decimal :: "string \<Rightarrow> rat option" where
  "decimal s =
     (let mant = takeWhile (\<lambda>c. \<not> is_exp_char c) s;
          ex = dropWhile (\<lambda>c. \<not> is_exp_char c) s;
          ip = takeWhile (\<lambda>c. c \<noteq> CHR ''.'') mant;
          rest = dropWhile (\<lambda>c. c \<noteq> CHR ''.'') mant;
          fp = (if rest = [] then [] else tl rest)
      in if ip = [] \<and> fp = [] then None
         else
           case (digits_from 10 0 ip, digits_from 10 0 fp, exponent ex) of
             (Some i, Some f, Some x) \<Rightarrow>
               Some ((of_int i + of_int f / 10 ^ length fp) *
                     (if 0 \<le> x then 10 ^ nat x else 1 / 10 ^ nat (- x)))
           | _ \<Rightarrow> None)"

definition signed :: "bool \<Rightarrow> rat \<Rightarrow> jsnum" where
  "signed neg q =
     (if q = 0 then (if neg then NegZero else Finite 0)
      else round64 (if neg then - q else q))"

definition radix_literal :: "int \<Rightarrow> string \<Rightarrow> jsnum" where
  "radix_literal base s = (case digits base s of None \<Rightarrow> NaN | Some n \<Rightarrow> round64 (of_int n))"

definition str_decimal :: "bool \<Rightarrow> string \<Rightarrow> jsnum" where
  "str_decimal neg s =
     (if s = ''Infinity'' then (if neg then NegInf else PosInf)
      else case decimal s of None \<Rightarrow> NaN | Some q \<Rightarrow> signed neg q)"

text \<open>StringToNumber: the number a string converts to, \<open>NaN\<close> when it is no numeric literal.\<close>

definition string_to_number :: "string \<Rightarrow> jsnum" where
  "string_to_number s =
     (let t = js_trim s
      in if t = [] then Finite 0
         else if take 2 t = ''0x'' \<or> take 2 t = ''0X'' then radix_literal 16 (drop 2 t)
         else if take 2 t = ''0o'' \<or> take 2 t = ''0O'' then radix_literal 8 (drop 2 t)
         else if take 2 t = ''0b'' \<or> take 2 t = ''0B'' then radix_literal 2 (drop 2 t)
         else if hd t = CHR ''-'' then str_decimal True (tl t)
         else if hd t = CHR ''+'' then str_decimal False (tl t)
         else str_decimal False t)"

subsection \<open>Values to numbers\<close>

text \<open>
  ToPrimitive on an object or array. The values here have no callable property, so an
  own property \<open>toString\<close> of an object hides \<open>Object.prototype.toString\<close> and the
  conversion raises a TypeError; an array joins its elements, converting each to a
  string, and raises when one of them does.
\<close>

fun to_primitive_raises :: "jsval \<Rightarrow> bool" where
  "to_primitive_raises (JObj kvs) = (map_of kvs ''toString'' \<noteq> None)"
| "to_primitive_raises (JArr vs) = list_ex to_primitive_raises vs"
| "to_primitive_raises _ = False"

text \<open>
  \<open>Number(v)\<close>. An object without an own \<open>toString\<close> converts to the string
  \<open>[object Object]\<close>, which is no numeric literal. An array converts to the join of
  its elements with commas: the empty string for no element, the string of the element
  for one (empty for \<open>undefined\<close> and \<open>null\<close>; the string of a number converts back
  to that number, the negative zero printing as \<open>0\<close>), and a string with a comma,
  which is no numeric literal, for two or more.
\<close>

fun to_number :: "jsval \<Rightarrow> error + jsnum" where
  "to_number JUndefined = Inr NaN"
| "to_number JNull = Inr (Finite 0)"
| "to_number (JBool b) = Inr (if b then Finite 1 else Finite 0)"
| "to_number (JNum n) = Inr n"
| "to_number (JStr s) = Inr (string_to_number s)"
| "to_number (JObj kvs) = (if to_primitive_raises (JObj kvs) then Inl TypeError else Inr NaN)"
| "to_number (JArr []) = Inr (Finite 0)"
| "to_number (JArr [v]) =
     (case v of
        JUndefined \<Rightarrow> Inr (Finite 0)
      | JNull \<Rightarrow> Inr (Finite 0)
      | JBool b \<Rightarrow> Inr NaN
      | JNum n \<Rightarrow> Inr (if n = NegZero then Finite 0 else n)
      | JStr s \<Rightarrow> Inr (string_to_number s)
      | JArr ws \<Rightarrow> to_number v
      | JObj kvs \<Rightarrow> to_number v)"
| "to_number (JArr (v # w # vs)) =
     (if to_primitive_raises (JArr (v # w # vs)) then Inl TypeError else Inr NaN)"

section \<open>Order line items\<close>

text \<open>The object literal that the callback of \<open>items.map\<close> returns.\<close>

record parsed_item =
  productId :: jsval
  productName :: jsval
  mrp :: jsnum
  price :: jsnum
  qty :: jsnum
  lineTotal :: jsnum
  "note" :: jsval

text \<open>\<open>Number(item.k)\<close>.\<close>

definition num_field :: "jsval \<Rightarrow> string \<Rightarrow> error + jsnum" where
  "num_field item k = bindE (get_prop item k) to_number"

text \<open>The callback of \<open>items.map\<close> in \<open>buildParsedItems\<close>.\<close>

definition parse_item :: "jsval \<Rightarrow> error + parsed_item" where
  "parse_item item =
     bindE (num_field item ''qty'') (\<lambda>nq.
     bindE (num_field item ''price'') (\<lambda>np.
     bindE (get_prop item ''productId'') (\<lambda>pid.
     bindE (get_prop item ''productName'') (\<lambda>pname.
     bindE (num_field item ''mrp'') (\<lambda>nm.
     bindE (get_prop item ''note'') (\<lambda>nt.
       let q = or_num nq (Finite 1);
           p = or_num np (Finite 0)
       in Inr \<lparr> productId = js_or pid JNull,
                 productName = pname,
                 mrp = or_num nm (Finite 0),
                 price = p,
                 qty = q,
                 lineTotal = js_mul p q,
                 note = js_or nt (JStr []) \<rparr>))))))"

text \<open>The callback of \<open>parsedItems.reduce\<close>.\<close>

definition add_line :: "jsnum \<Rightarrow> parsed_item \<Rightarrow> jsnum" where
  "add_line acc it = js_add acc (or_num (lineTotal it) (Finite 0))"

text \<open>
  \<open>buildParsedItems(items = [])\<close>, returning the pair of \<open>parsedItems\<close> and
  \<open>totalAmount\<close>. The default applies to \<open>undefined\<close> only; a value that is no array
  has no method \<open>map\<close>, and the call raises a TypeError.
\<close>

fun buildParsedItems :: "jsval \<Rightarrow> error + parsed_item list \<times> jsnum" where
  "buildParsedItems JUndefined = Inr ([], Finite 0)"
| "buildParsedItems (JArr its) =
     bindE (mapE parse_item its) (\<lambda>parsedItems.
       Inr (parsedItems, foldl add_line (Finite 0) parsedItems))"
| "buildParsedItems _ = Inl TypeError"

section \<open>The record store\<close>

text \<open>
  The schemas of \<open>Order\<close> and \<open>Product\<close>. A document keeps the values it was given;
  an absent path is \<open>undefined\<close> or \<open>None\<close>. The fields of a product carry the prefix
  \<open>product_\<close>, since an order line has a \<open>price\<close> and an \<open>mrp\<close> of its own.
\<close>

record order =
  oid :: string
  shopId :: jsval
  shopName :: jsval
  items :: "parsed_item list"
  totalAmount :: jsnum
  status :: string
  createdAt :: nat

record product =
  product_id :: string
  product_name :: string
  product_mrp :: jsnum
  product_price :: "jsnum option"
  product_salePrice :: "jsnum option"
  product_createdAt :: nat

text \<open>
  The update documents of the two calls of \<open>findByIdAndUpdate\<close>, and the operations
  the handlers send to the store.
\<close>

datatype order_update =
    SetStatus string
  | Replace jsval jsval "parsed_item list" jsnum

datatype store_op =
    SaveOrder order
  | UpdateOrder string order_update
  | DeleteOrder string
  | SaveProduct product

text \<open>
  The store holds the documents in insertion order. It is an external service: an
  operation that it cannot carry out or that it rejects (no connection, an identifier or
  a value that does not cast to the schema's type, a failed validation) raises and
  changes nothing. Which operations those are is the store's own business, given here
  by \<open>refuses\<close>.
\<close>

record store =
  orders :: "order list"
  products :: "product list"
  refuses :: "store_op \<Rightarrow> bool"

text \<open>
  An update assigns the paths of the update document; a path given as \<open>undefined\<close> is
  left out of the update, so the stored value stays.
\<close>

fun apply_update :: "order_update \<Rightarrow> order \<Rightarrow> order" where
  "apply_update (SetStatus s) ord = ord\<lparr>status := s\<rparr>"
| "apply_update (Replace sid sname its amount) ord =
     ord\<lparr>shopId := sid,
         shopName := (if sname = JUndefined then shopName ord else sname),
         items := its,
         totalAmount := amount\<rparr>"

fun update_first :: "string \<Rightarrow> (order \<Rightarrow> order) \<Rightarrow> order list \<Rightarrow> order list" where
  "update_first i f [] = []"
| "update_first i f (ord # os) =
     (if oid ord = i then f ord # os else ord # update_first i f os)"

fun remove_first :: "string \<Rightarrow> order list \<Rightarrow> order list" where
  "remove_first i [] = []"
| "remove_first i (ord # os) = (if oid ord = i then os else ord # remove_first i os)"

definition find_order :: "store \<Rightarrow> string \<Rightarrow> order option" where
  "find_order db i = find (\<lambda>ord. oid ord = i) (orders db)"

text \<open>\<open>new Order(doc).save()\<close> and \<open>new Product(doc).save()\<close>.\<close>

definition save_order :: "store \<Rightarrow> order \<Rightarrow> error + store" where
  "save_order db ord =
     (if refuses db (SaveOrder ord) then Inl StoreError
      else Inr (db\<lparr>orders := orders db @ [ord]\<rparr>))"

definition save_product :: "store \<Rightarrow> product \<Rightarrow> error + store" where
  "save_product db p =
     (if refuses db (SaveProduct p) then Inl StoreError
      else Inr (db\<lparr>products := products db @ [p]\<rparr>))"

text \<open>\<open>Order.findByIdAndUpdate(id, update, { new: true })\<close>: the updated document, or \<open>null\<close>.\<close>

definition findByIdAndUpdate :: "store \<Rightarrow> string \<Rightarrow> order_update \<Rightarrow> error + order option \<times> store" where
  "findByIdAndUpdate db i upd =
     (if refuses db (UpdateOrder i upd) then Inl StoreError
      else case find_order db i of
             None \<Rightarrow> Inr (None, db)
           | Some ord \<Rightarrow>
               Inr (Some (apply_update upd ord),
                    db\<lparr>orders := update_first i (apply_update upd) (orders db)\<rparr>))"

text \<open>\<open>Order.deleteOne({ _id: id })\<close>: the \<open>deletedCount\<close> and the store.\<close>

definition deleteOne :: "store \<Rightarrow> string \<Rightarrow> error + nat \<times> store" where
  "deleteOne db i =
     (if refuses db (DeleteOrder i) then Inl StoreError
      else case find_order db i of
             None \<Rightarrow> Inr (0, db)
           | Some ord \<Rightarrow> Inr (1, db\<lparr>orders := remove_first i (orders db)\<rparr>))"

section \<open>The routes\<close>

text \<open>
  The file \<open>server.js\<close> holds two listings of the server, lines 1 to 298 and lines 299
  to 532. \<open>buildParsedItems\<close> and the handlers of \<open>POST\<close>, \<open>PUT\<close> and \<open>PATCH\<close> on
  orders read the same in both. The handlers of \<open>DELETE\<close> on orders and of \<open>POST\<close> on
  products differ: both versions are given, the one of the first listing under a name
  that ends in \<open>_first\<close>.
\<close>

datatype reply =
    Message string
  | Deleted string nat
  | Failure string error
  | OrderDoc order
  | ProductDoc product

record response =
  code :: nat
  body :: reply

definition respond :: "nat \<Rightarrow> reply \<Rightarrow> response" where
  "respond c b = \<lparr>code = c, body = b\<rparr>"

text \<open>
  \<open>try { ... } catch (err) { res.status(500).json({ message }) }\<close>: a handler that
  raises answers 500 and leaves the store as it was.
\<close>

definition catch500 :: "string \<Rightarrow> store \<Rightarrow> error + response \<times> store \<Rightarrow> response \<times> store" where
  "catch500 msg db r = (case r of Inl e \<Rightarrow> (respond 500 (Message msg), db) | Inr x \<Rightarrow> x)"

definition nullish :: "jsval \<Rightarrow> bool" where
  "nullish v = (v = JUndefined \<or> v = JNull)"

definition is_array :: "jsval \<Rightarrow> bool" where
  "is_array v = (case v of JArr _ \<Rightarrow> True | _ \<Rightarrow> False)"

text \<open>\<open>!shopId || !Array.isArray(items) || items.length === 0\<close>.\<close>

definition bad_order_body :: "jsval \<Rightarrow> jsval \<Rightarrow> bool" where
  "bad_order_body sid its = (\<not> truthy sid \<or> \<not> is_array its \<or> its = JArr [])"

text \<open>
  \<open>POST /api/orders\<close>. The identifier and the creation time of the new document come
  from outside; the schema's default gives it the status \<open>Pending\<close>.
\<close>

definition post_order :: "store \<Rightarrow> string \<Rightarrow> nat \<Rightarrow> jsval \<Rightarrow> response \<times> store" where
  "post_order db new_id now req_body =
     catch500 ''Error creating order'' db
       (bindE (get_prop req_body ''shopId'') (\<lambda>sid.
        bindE (get_prop req_body ''shopName'') (\<lambda>sname.
        bindE (get_prop req_body ''items'') (\<lambda>its.
          if bad_order_body sid its
          then Inr (respond 400 (Message ''Shop and items are required''), db)
          else
            bindE (buildParsedItems its) (\<lambda>(parsedItems, amount).
              let ord = \<lparr>oid = new_id, shopId = sid, shopName = sname,
                         items = parsedItems, totalAmount = amount,
                         status = ''Pending'', createdAt = now\<rparr>
              in bindE (save_order db ord) (\<lambda>db'.
                   Inr (respond 201 (OrderDoc ord), db')))))))"


text \<open>\<open>PATCH /api/orders/:id/status\<close>.\<close>

definition valid_statuses :: "string list" where
  "valid_statuses = [''Pending'', ''Delivered'', ''Cancelled'']"

text \<open>\<open>valid_statuses.includes(v)\<close>: only a string is the same value as a string.\<close>

definition includes_status :: "jsval \<Rightarrow> bool" where
  "includes_status v = (case v of JStr s \<Rightarrow> s \<in> set valid_statuses | _ \<Rightarrow> False)"

definition patch_order_status :: "store \<Rightarrow> string \<Rightarrow> jsval \<Rightarrow> response \<times> store" where
  "patch_order_status db i req_body =
     catch500 ''Error updating status'' db
       (bindE (get_prop req_body ''status'') (\<lambda>st.
          case st of
            JStr s \<Rightarrow>
              if includes_status st then
                bindE (findByIdAndUpdate db i (SetStatus s)) (\<lambda>(found, db').
                  case found of
                    None \<Rightarrow> Inr (respond 404 (Message ''Order not found''), db')
                  | Some ord \<Rightarrow> Inr (respond 200 (OrderDoc ord), db'))
              else Inr (respond 400 (Message ''Invalid status''), db)
          | _ \<Rightarrow> Inr (respond 400 (Message ''Invalid status''), db)))"

text \<open>
  \<open>DELETE /api/orders/:id\<close>. The parameter is a string, and so is
  \<open>String(req.params.id || "")\<close>. The handler of the second listing (lines 510 to 524)
  answers 404 when nothing was deleted and 500 when the store raises.
\<close>

definition delete_order :: "store \<Rightarrow> string \<Rightarrow> response \<times> store" where
  "delete_order db param =
     (let i = js_trim param
      in case deleteOne db i of
           Inr (deletedCount, db') \<Rightarrow>
             if 0 < deletedCount
             then (respond 200 (Deleted ''Order deleted'' deletedCount), db')
             else (respond 404 (Deleted ''Order not found'' 0), db')
         | Inl err \<Rightarrow> (respond 500 (Failure ''Error while deleting'' err), db))"

text \<open>
  The handler of the first listing (lines 261 to 284) answers 200 in every case, as its
  comments say.
\<close>

definition delete_order_first :: "store \<Rightarrow> string \<Rightarrow> response \<times> store" where
  "delete_order_first db param =
     (let i = js_trim param
      in case deleteOne db i of
           Inr (deletedCount, db') \<Rightarrow>
             (respond 200
                (Deleted (if 0 < deletedCount then ''Order deleted''
                          else ''Order not found or already deleted'') deletedCount), db')
         | Inl err \<Rightarrow>
             (respond 200 (Failure ''Error while deleting, but request received'' err), db))"

text \<open>\<open>name.trim()\<close>: only a string has the method.\<close>

definition trim_method :: "jsval \<Rightarrow> error + string" where
  "trim_method v = (case v of JStr s \<Rightarrow> Inr (js_trim s) | _ \<Rightarrow> Inl TypeError)"

text \<open>\<open>v != null ? Number(v) : undefined\<close>.\<close>

definition optional_number :: "jsval \<Rightarrow> error + jsnum option" where
  "optional_number v =
     (if nullish v then Inr None else bindE (to_number v) (\<lambda>n. Inr (Some n)))"

text \<open>
  \<open>POST /api/products\<close> of the second listing (lines 403 to 423): the name and the
  list price are required.
\<close>

definition post_product :: "store \<Rightarrow> string \<Rightarrow> nat \<Rightarrow> jsval \<Rightarrow> response \<times> store" where
  "post_product db new_id now req_body =
     catch500 ''Error creating product'' db
       (bindE (get_prop req_body ''name'') (\<lambda>nm.
        bindE (get_prop req_body ''mrp'') (\<lambda>m.
        bindE (get_prop req_body ''price'') (\<lambda>pr.
        bindE (get_prop req_body ''salePrice'') (\<lambda>sp.
          if \<not> truthy nm \<or> nullish m
          then Inr (respond 400 (Message ''Name and MRP are required''), db)
          else
            bindE (trim_method nm) (\<lambda>trimmed.
            bindE (to_number m) (\<lambda>m'.
            bindE (optional_number pr) (\<lambda>pr'.
            bindE (optional_number sp) (\<lambda>sp'.
              let p = \<lparr>product_id = new_id, product_name = trimmed, product_mrp = m',
                       product_price = pr', product_salePrice = sp',
                       product_createdAt = now\<rparr>
              in bindE (save_product db p) (\<lambda>db'.
                   Inr (respond 201 (ProductDoc p), db')))))))))))"

text \<open>
  \<open>POST /api/products\<close> of the first listing (lines 110 to 131): the price is
  required too, and the schema has no sale price.
\<close>

definition post_product_first :: "store \<Rightarrow> string \<Rightarrow> nat \<Rightarrow> jsval \<Rightarrow> response \<times> store" where
  "post_product_first db new_id now req_body =
     catch500 ''Error creating product'' db
       (bindE (get_prop req_body ''name'') (\<lambda>nm.
        bindE (get_prop req_body ''mrp'') (\<lambda>m.
        bindE (get_prop req_body ''price'') (\<lambda>pr.
          if \<not> truthy nm \<or> nullish m \<or> nullish pr
          then Inr (respond 400 (Message ''Name, MRP and price are required''), db)
          else
            bindE (trim_method nm) (\<lambda>trimmed.
            bindE (to_number m) (\<lambda>m'.
            bindE (to_number pr) (\<lambda>pr'.
              let p = \<lparr>product_id = new_id, product_name = trimmed, product_mrp = m',
                       product_price = Some pr', product_salePrice = None,
                       product_createdAt = now\<rparr>
              in bindE (save_product db p) (\<lambda>db'.
                   Inr (respond 201 (ProductDoc p), db')))))))))"

section \<open>Notions used in the statements\<close>

text \<open>The value of \<open>v.k\<close> where the read does not raise.\<close>

definition field_value :: "jsval \<Rightarrow> string \<Rightarrow> jsval" where
  "field_value v k = (case get_prop v k of Inr x \<Rightarrow> x | Inl e \<Rightarrow> JUndefined)"

text \<open>
  The line items on which the callback of \<open>items.map\<close> returns: the item is neither
  \<open>undefined\<close> nor \<open>null\<close>, and none of its three numeric fields raises in \<open>Number\<close>.
  Lemma \<open>parse_item_returns_iff\<close> shows that these are exactly those items.
\<close>

definition normalizable :: "jsval \<Rightarrow> bool" where
  "normalizable item =
     (\<not> nullish item \<and>
      \<not> to_primitive_raises (field_value item ''qty'') \<and>
      \<not> to_primitive_raises (field_value item ''price'') \<and>
      \<not> to_primitive_raises (field_value item ''mrp''))"

text \<open>A canonical line item seen as the JavaScript object it is.\<close>

definition item_object :: "parsed_item \<Rightarrow> jsval" where
  "item_object it =
     JObj [(''productId'', productId it),
           (''productName'', productName it),
           (''mrp'', JNum (mrp it)),
           (''price'', JNum (price it)),
           (''qty'', JNum (qty it)),
           (''lineTotal'', JNum (lineTotal it)),
           (''note'', note it)]"

text \<open>
  The total as the specification words it: the sum, taken along the sequence from 0, of
  the line totals, a line total that is \<open>NaN\<close> or a zero counting as 0.
\<close>

fun sum_from :: "jsnum \<Rightarrow> jsnum list \<Rightarrow> jsnum" where
  "sum_from acc [] = acc"
| "sum_from acc (x # xs) = sum_from (js_add acc x) xs"

definition spec_totalAmount :: "parsed_item list \<Rightarrow> jsnum" where
  "spec_totalAmount ps =
     sum_from (Finite 0)
       (map (\<lambda>it. if lineTotal it = NaN \<or> is_zero (lineTotal it) then Finite 0
                  else lineTotal it) ps)"

text \<open>What every line item that the normalizer returns satisfies.\<close>

definition canonical :: "parsed_item \<Rightarrow> bool" where
  "canonical it =
     (truthy (JNum (qty it)) \<and>
      (truthy (JNum (price it)) \<or> price it = Finite 0) \<and>
      (truthy (JNum (mrp it)) \<or> mrp it = Finite 0) \<and>
      (truthy (productId it) \<or> productId it = JNull) \<and>
      (truthy (note it) \<or> note it = JStr []) \<and>
      lineTotal it = js_mul (price it) (qty it))"

subsection \<open>Sample data\<close>

text \<open>A store that carries out every operation, empty and with one delivered order.\<close>

definition accepts_all :: "store_op \<Rightarrow> bool" where
  "accepts_all op = False"

definition empty_store :: store where
  "empty_store = \<lparr>orders = [], products = [], refuses = accepts_all\<rparr>"

definition sample_item :: parsed_item where
  "sample_item =
     \<lparr>productId = JNull, productName = JStr ''Soap'', mrp = Finite 12, price = Finite 10,
      qty = Finite 2, lineTotal = Finite 20, note = JStr []\<rparr>"

definition sample_order :: order where
  "sample_order =
     \<lparr>oid = ''o1'', shopId = JStr ''s1'', shopName = JStr ''Corner'', items = [sample_item],
      totalAmount = Finite 20, status = ''Delivered'', createdAt = 7\<rparr>"

definition sample_store :: store where
  "sample_store = \<lparr>orders = [sample_order], products = [], refuses = accepts_all\<rparr>"

text \<open>The items of the second scenario: \<open>[{price: 5}, {mrp: 9, price: 3, qty: 0}]\<close>.\<close>

definition scenario_items :: "jsval list" where
  "scenario_items =
     [JObj [(''price'', JNum (Finite 5))],
      JObj [(''mrp'', JNum (Finite 9)), (''price'', JNum (Finite 3)), (''qty'', JNum (Finite 0))]]"

text \<open>The items of the first scenario, \<open>[{price: "10", qty: "2"}]\<close>, and the canonical
  items of the second.\<close>

definition first_items :: "jsval list" where
  "first_items = [JObj [(''price'', JStr ''10''), (''qty'', JStr ''2'')]]"

definition scenario_parsed :: "parsed_item list" where
  "scenario_parsed =
     [\<lparr>productId = JNull, productName = JUndefined, mrp = Finite 0, price = Finite 5,
       qty = Finite 1, lineTotal = Finite 5, note = JStr []\<rparr>,
      \<lparr>productId = JNull, productName = JUndefined, mrp = Finite 9, price = Finite 3,
       qty = Finite 1, lineTotal = Finite 3, note = JStr []\<rparr>]"

section \<open>Conversions and property reads\<close>

lemma to_number_raises: "to_number v = Inl TypeError \<longleftrightarrow> to_primitive_raises v"
  by (induction v rule: to_number.induct) (auto split: jsval.splits)

lemma to_number_returns: "(\<exists>n. to_number v = Inr n) \<longleftrightarrow> \<not> to_primitive_raises v"
  by (induction v rule: to_number.induct) (auto split: jsval.splits)

lemma to_number_error: "to_number v = Inl e \<Longrightarrow> e = TypeError"
  by (induction v rule: to_number.induct) (auto split: jsval.splits if_splits)

lemma get_prop_returns: "\<not> nullish v \<Longrightarrow> get_prop v k = Inr (field_value v k)"
  by (cases v) (auto simp: nullish_def field_value_def)

lemma get_prop_raises: "nullish v \<Longrightarrow> get_prop v k = Inl TypeError"
  by (cases v) (auto simp: nullish_def)

lemma num_field_returns:
  "\<not> nullish v \<Longrightarrow> \<not> to_primitive_raises (field_value v k) \<Longrightarrow>
   \<exists>n. num_field v k = Inr n \<and> to_number (field_value v k) = Inr n"
  using to_number_returns [of "field_value v k"]
  by (auto simp: num_field_def bindE_def get_prop_returns)

lemma or_num_default: "or_num n d = (if n = NaN \<or> is_zero n then d else n)"
  by (simp add: or_num_def)

section \<open>The normalizer returns exactly on normalizable items\<close>

lemma parse_item_returns:
  assumes "normalizable item"
  shows "\<exists>nq np nm.
           to_number (field_value item ''qty'') = Inr nq \<and>
           to_number (field_value item ''price'') = Inr np \<and>
           to_number (field_value item ''mrp'') = Inr nm \<and>
           parse_item item =
             Inr \<lparr> productId = js_or (field_value item ''productId'') JNull,
                   productName = field_value item ''productName'',
                   mrp = or_num nm (Finite 0),
                   price = or_num np (Finite 0),
                   qty = or_num nq (Finite 1),
                   lineTotal = js_mul (or_num np (Finite 0)) (or_num nq (Finite 1)),
                   note = js_or (field_value item ''note'') (JStr []) \<rparr>"
proof -
  from assms have nn: "\<not> nullish item"
    by (simp add: normalizable_def)
  from assms obtain nq where
    q: "num_field item ''qty'' = Inr nq" "to_number (field_value item ''qty'') = Inr nq"
    using num_field_returns [of item "''qty''"] by (auto simp: normalizable_def)
  from assms obtain np where
    p: "num_field item ''price'' = Inr np" "to_number (field_value item ''price'') = Inr np"
    using num_field_returns [of item "''price''"] by (auto simp: normalizable_def)
  from assms obtain nm where
    m: "num_field item ''mrp'' = Inr nm" "to_number (field_value item ''mrp'') = Inr nm"
    using num_field_returns [of item "''mrp''"] by (auto simp: normalizable_def)
  show ?thesis
    using q p m nn by (simp add: parse_item_def bindE_def get_prop_returns Let_def)
qed

lemma parse_item_raises:
  assumes "\<not> normalizable item"
  shows "parse_item item = Inl TypeError"
proof (cases "nullish item")
  case True
  then show ?thesis
    by (simp add: parse_item_def num_field_def bindE_def get_prop_raises)
next
  case False
  with assms have "to_primitive_raises (field_value item ''qty'') \<or>
      to_primitive_raises (field_value item ''price'') \<or>
      to_primitive_raises (field_value item ''mrp'')"
    by (auto simp: normalizable_def)
  then have "to_number (field_value item ''qty'') = Inl TypeError \<or>
      to_number (field_value item ''price'') = Inl TypeError \<or>
      to_number (field_value item ''mrp'') = Inl TypeError"
    by (simp add: to_number_raises)
  with False show ?thesis
    by (auto simp: parse_item_def num_field_def bindE_def get_prop_returns Let_def
          split: sum.splits dest: to_number_error)
qed

lemma parse_item_returns_iff: "(\<exists>p. parse_item item = Inr p) \<longleftrightarrow> normalizable item"
proof (cases "normalizable item")
  case True
  with parse_item_returns [OF True] show ?thesis by auto
next
  case False
  with parse_item_raises [OF False] show ?thesis by simp
qed

lemma mapE_parse_item:
  "list_all normalizable its \<Longrightarrow>
     \<exists>ps. mapE parse_item its = Inr ps \<and> length ps = length its \<and>
          (\<forall>i<length its. parse_item (its ! i) = Inr (ps ! i))"
proof (induction its)
  case Nil
  then show ?case by simp
next
  case (Cons it its)
  then obtain ps where ps: "mapE parse_item its = Inr ps" "length ps = length its"
      "\<forall>i<length its. parse_item (its ! i) = Inr (ps ! i)"
    by auto
  from Cons.prems obtain p where p: "parse_item it = Inr p"
    using parse_item_returns [of it] by auto
  have "\<forall>i<length (it # its). parse_item ((it # its) ! i) = Inr ((p # ps) ! i)"
    using p ps(3) by (auto simp: nth_Cons split: nat.splits)
  with p ps show ?case by (auto simp: bindE_def)
qed

lemma mapE_parse_item_only: "mapE parse_item its = Inr ps \<Longrightarrow> list_all normalizable its"
proof (induction its arbitrary: ps)
  case Nil
  then show ?case by simp
next
  case (Cons it its)
  then show ?case
    using parse_item_raises [of it]
    by (auto simp: bindE_def split: sum.splits)
qed

lemma buildParsedItems_returns:
  assumes "list_all normalizable its"
  shows "\<exists>ps. buildParsedItems (JArr its) = Inr (ps, foldl add_line (Finite 0) ps) \<and>
          length ps = length its \<and> (\<forall>i<length its. parse_item (its ! i) = Inr (ps ! i))"
  using mapE_parse_item [OF assms] by (auto simp: bindE_def)

lemma buildParsedItems_returns_iff:
  "(\<exists>r. buildParsedItems (JArr its) = Inr r) \<longleftrightarrow> list_all normalizable its"
  using buildParsedItems_returns [of its] mapE_parse_item_only [of its]
  by (auto simp: bindE_def split: sum.splits)

lemma foldl_add_line:
  "foldl add_line acc ps =
     sum_from acc (map (\<lambda>it. if lineTotal it = NaN \<or> is_zero (lineTotal it) then Finite 0
                             else lineTotal it) ps)"
  by (induction ps arbitrary: acc) (simp_all add: add_line_def or_num_default)

section \<open>Canonical items are fixed points\<close>

lemma parse_item_canonical: "parse_item item = Inr p \<Longrightarrow> canonical p"
proof -
  assume a: "parse_item item = Inr p"
  then have "normalizable item"
    using parse_item_raises [of item] by auto
  from parse_item_returns [OF this] a obtain nq np nm where
    p: "p = \<lparr> productId = js_or (field_value item ''productId'') JNull,
                productName = field_value item ''productName'',
                mrp = or_num nm (Finite 0),
                price = or_num np (Finite 0),
                qty = or_num nq (Finite 1),
                lineTotal = js_mul (or_num np (Finite 0)) (or_num nq (Finite 1)),
                note = js_or (field_value item ''note'') (JStr []) \<rparr>"
    by auto
  have "truthy (JNum (or_num n (Finite 1)))" for n
    by (simp add: or_num_def)
  moreover have "truthy (JNum (or_num n (Finite 0))) \<or> or_num n (Finite 0) = Finite 0" for n
    by (simp add: or_num_def)
  moreover have "truthy (js_or v d) \<or> js_or v d = d" for v d
    by (simp add: js_or_def)
  ultimately show ?thesis
    unfolding canonical_def p by simp
qed

lemma parse_item_object: "canonical p \<Longrightarrow> parse_item (item_object p) = Inr p"
  by (cases p)
     (auto simp: canonical_def parse_item_def item_object_def num_field_def bindE_def
        or_num_def js_or_def Let_def)

lemma mapE_item_object:
  "list_all canonical ps \<Longrightarrow> mapE parse_item (map item_object ps) = Inr ps"
  by (induction ps) (simp_all add: parse_item_object bindE_def)

lemma mapE_canonical: "mapE parse_item its = Inr ps \<Longrightarrow> list_all canonical ps"
proof (induction its arbitrary: ps)
  case Nil
  then show ?case by simp
next
  case (Cons it its)
  then show ?case
    by (auto simp: bindE_def parse_item_canonical split: sum.splits)
qed

section \<open>Lookups in the store\<close>

lemma find_update_first:
  "find (\<lambda>ord. oid ord = i) os = Some ord \<Longrightarrow> oid (f ord) = oid ord \<Longrightarrow>
   find (\<lambda>ord. oid ord = i) (update_first i f os) = Some (f ord)"
  by (induction os) (auto split: if_splits)

lemma find_update_first_other:
  "j \<noteq> i \<Longrightarrow> (\<And>x. oid (f x) = oid x) \<Longrightarrow>
   find (\<lambda>ord. oid ord = j) (update_first i f os) = find (\<lambda>ord. oid ord = j) os"
  by (induction os) auto

lemma find_oid: "find (\<lambda>ord. oid ord = i) os = Some ord \<Longrightarrow> oid ord = i"
  by (induction os) (auto split: if_splits)

lemma oid_apply_update [simp]: "oid (apply_update upd ord) = oid ord"
  by (cases upd) simp_all


lemma remove_first_remove1:
  "find (\<lambda>ord. oid ord = i) os = Some ord \<Longrightarrow> remove_first i os = remove1 ord os"
proof (induction os)
  case Nil
  then show ?case by simp
next
  case (Cons a os)
  show ?case
  proof (cases "oid a = i")
    case True
    with Cons.prems show ?thesis by simp
  next
    case False
    with Cons.prems have f: "find (\<lambda>ord. oid ord = i) os = Some ord"
      by simp
    from find_oid [OF f] False have "a \<noteq> ord"
      by auto
    with False Cons.IH [OF f] show ?thesis
      by simp
  qed
qed


section \<open>The specification's scenarios\<close>

lemma scenario_one:
  "buildParsedItems (JArr first_items) =
   Inr ([\<lparr>productId = JNull, productName = JUndefined, mrp = Finite 0, price = Finite 10,
          qty = Finite 2, lineTotal = Finite 20, note = JStr []\<rparr>], Finite 20)"
  by code_simp

lemma scenario_two: "buildParsedItems (JArr scenario_items) = Inr (scenario_parsed, Finite 8)"
  by code_simp

lemma scenario_items_normalizable: "list_all normalizable scenario_items"
  by (simp add: scenario_items_def normalizable_def field_value_def nullish_def)

lemma first_items_normalizable: "list_all normalizable first_items"
  by (simp add: first_items_def normalizable_def field_value_def nullish_def)

text \<open>No rounding to a currency precision: \<open>0.1 * 3\<close> is the double next above \<open>0.3\<close>.\<close>

lemma line_total_not_rounded:
  "js_mul (string_to_number ''0.1'') (Finite 3) = Finite (1351079888211149 / 4503599627370496) \<and>
   string_to_number ''0.3'' = Finite (5404319552844595 / 18014398509481984)"
  by code_simp

section \<open>The line-item normalizer\<close>

text \<open>
  C2, as amended. For every raw line item that is neither \<open>null\<close> nor \<open>undefined\<close> and
  whose \<open>qty\<close>, \<open>price\<close> and \<open>mrp\<close> convert with \<open>Number\<close> without raising, the
  canonical quantity is the number that \<open>Number\<close> gives for the item's \<open>qty\<close>, and 1
  when that number is \<open>NaN\<close> (the parse failed) or a zero: an explicit quantity of 0
  becomes 1. The normalizer returns one canonical item per input, in order, on every list
  of such items.
\<close>

theorem normalizer_quantity:
  assumes "list_all normalizable its" and "i < length its"
  shows "\<exists>ps amount n.
           buildParsedItems (JArr its) = Inr (ps, amount) \<and> length ps = length its \<and>
           to_number (field_value (its ! i) ''qty'') = Inr n \<and>
           qty (ps ! i) = (if n = NaN \<or> is_zero n then Finite 1 else n)"
proof -
  from buildParsedItems_returns [OF assms(1)] obtain ps where
    ps: "buildParsedItems (JArr its) = Inr (ps, foldl add_line (Finite 0) ps)"
        "length ps = length its" "parse_item (its ! i) = Inr (ps ! i)"
    using assms(2) by blast
  from assms have "normalizable (its ! i)"
    by (simp add: list_all_length)
  from parse_item_returns [OF this] ps(3) obtain n where
    "to_number (field_value (its ! i) ''qty'') = Inr n" "qty (ps ! i) = or_num n (Finite 1)"
    by auto
  with ps(1,2) show ?thesis
    by (auto simp: or_num_default)
qed

theorem normalizer_quantity_witness:
  "list_all normalizable scenario_items \<and> 1 < length scenario_items \<and>
   (\<exists>ps amount. buildParsedItems (JArr scenario_items) = Inr (ps, amount) \<and>
      to_number (field_value (scenario_items ! 1) ''qty'') = Inr (Finite 0) \<and>
      qty (ps ! 1) = Finite 1)"
proof -
  have l: "1 < length scenario_items"
    by (simp add: scenario_items_def)
  have q: "to_number (field_value (scenario_items ! 1) ''qty'') = Inr (Finite 0)"
    by (simp add: scenario_items_def field_value_def)
  from normalizer_quantity [OF scenario_items_normalizable l] q
  have "\<exists>ps amount. buildParsedItems (JArr scenario_items) = Inr (ps, amount) \<and>
      qty (ps ! 1) = Finite 1"
    by auto
  with scenario_items_normalizable l q show ?thesis
    by simp
qed

text \<open>
  The statement of C2 for every raw line item fails: on a quantity that is an object
  with an own property \<open>toString\<close> the conversion raises, and so does the normalizer,
  where the statement has the quantity default to 1; on the item \<open>null\<close> the read of
  \<open>qty\<close> raises.
\<close>

theorem normalizer_quantity_counterexample:
  "to_number (field_value (JObj [(''qty'', JObj [(''toString'', JNum (Finite 1))])]) ''qty'') =
     Inl TypeError \<and>
   buildParsedItems (JArr [JObj [(''qty'', JObj [(''toString'', JNum (Finite 1))])]]) =
     Inl TypeError \<and>
   buildParsedItems (JArr [JNull]) = Inl TypeError"
  by (simp add: field_value_def parse_item_def num_field_def bindE_def)

text \<open>
  C3, as amended. For every raw line item that is neither \<open>null\<close> nor \<open>undefined\<close>
  and whose \<open>qty\<close>, \<open>price\<close> and \<open>mrp\<close> convert with \<open>Number\<close> without raising, the
  unit price is the number that \<open>Number\<close> gives for the item's \<open>price\<close>, and 0 when that
  number is \<open>NaN\<close>; the list price is the same function of the item's \<open>mrp\<close>. (A
  parsed zero stays 0; the negative zero is stored as the positive one.)
\<close>

theorem normalizer_prices:
  assumes "list_all normalizable its" and "i < length its"
  shows "\<exists>ps amount np nm.
           buildParsedItems (JArr its) = Inr (ps, amount) \<and> length ps = length its \<and>
           to_number (field_value (its ! i) ''price'') = Inr np \<and>
           to_number (field_value (its ! i) ''mrp'') = Inr nm \<and>
           price (ps ! i) = (if np = NaN \<or> is_zero np then Finite 0 else np) \<and>
           mrp (ps ! i) = (if nm = NaN \<or> is_zero nm then Finite 0 else nm)"
proof -
  from buildParsedItems_returns [OF assms(1)] obtain ps where
    ps: "buildParsedItems (JArr its) = Inr (ps, foldl add_line (Finite 0) ps)"
        "length ps = length its" "parse_item (its ! i) = Inr (ps ! i)"
    using assms(2) by blast
  from assms have "normalizable (its ! i)"
    by (simp add: list_all_length)
  from parse_item_returns [OF this] ps(3) obtain np nm where
    "to_number (field_value (its ! i) ''price'') = Inr np"
    "to_number (field_value (its ! i) ''mrp'') = Inr nm"
    "price (ps ! i) = or_num np (Finite 0)" "mrp (ps ! i) = or_num nm (Finite 0)"
    by auto
  with ps(1,2) show ?thesis
    by (auto simp: or_num_default)
qed

theorem normalizer_prices_witness:
  "list_all normalizable scenario_items \<and> 0 < length scenario_items \<and>
   (\<exists>ps amount. buildParsedItems (JArr scenario_items) = Inr (ps, amount) \<and>
      to_number (field_value (scenario_items ! 0) ''price'') = Inr (Finite 5) \<and>
      to_number (field_value (scenario_items ! 0) ''mrp'') = Inr NaN \<and>
      price (ps ! 0) = Finite 5 \<and> mrp (ps ! 0) = Finite 0)"
proof -
  have l: "0 < length scenario_items"
    by (simp add: scenario_items_def)
  have p: "to_number (field_value (scenario_items ! 0) ''price'') = Inr (Finite 5)"
    by (simp add: scenario_items_def field_value_def)
  have m: "to_number (field_value (scenario_items ! 0) ''mrp'') = Inr NaN"
    by (simp add: scenario_items_def field_value_def)
  from normalizer_prices [OF scenario_items_normalizable l] p m
  have "\<exists>ps amount. buildParsedItems (JArr scenario_items) = Inr (ps, amount) \<and>
      price (ps ! 0) = Finite 5 \<and> mrp (ps ! 0) = Finite 0"
    by auto
  with scenario_items_normalizable l p m show ?thesis
    by simp
qed

text \<open>
  The statement of C3 for every raw line item fails: on a price or a list price that is
  an object with an own property \<open>toString\<close> the conversion raises, and so does the
  normalizer, where the statement has the field default to 0.
\<close>

theorem normalizer_prices_counterexample:
  "to_number (field_value (JObj [(''price'', JObj [(''toString'', JNum (Finite 1))])]) ''price'') =
     Inl TypeError \<and>
   buildParsedItems (JArr [JObj [(''price'', JObj [(''toString'', JNum (Finite 1))])]]) =
     Inl TypeError \<and>
   to_number (field_value (JObj [(''mrp'', JObj [(''toString'', JNum (Finite 1))])]) ''mrp'') =
     Inl TypeError \<and>
   buildParsedItems (JArr [JObj [(''mrp'', JObj [(''toString'', JNum (Finite 1))])]]) =
     Inl TypeError"
  by (simp add: field_value_def parse_item_def num_field_def bindE_def)

text \<open>
  C4. For every normalized line item, the line total is the product of the unit price
  and the quantity, both after defaulting, as the floating-point multiplication
  \<open>js_mul\<close> gives it; nothing is applied to the product afterwards.
\<close>

theorem line_total_product:
  assumes "list_all normalizable its" and "i < length its"
  shows "\<exists>ps amount.
           buildParsedItems (JArr its) = Inr (ps, amount) \<and> length ps = length its \<and>
           lineTotal (ps ! i) = js_mul (price (ps ! i)) (qty (ps ! i))"
proof -
  from buildParsedItems_returns [OF assms(1)] obtain ps where
    ps: "buildParsedItems (JArr its) = Inr (ps, foldl add_line (Finite 0) ps)"
        "length ps = length its" "parse_item (its ! i) = Inr (ps ! i)"
    using assms(2) by blast
  from assms have "normalizable (its ! i)"
    by (simp add: list_all_length)
  from parse_item_returns [OF this] ps(3)
  have "lineTotal (ps ! i) = js_mul (price (ps ! i)) (qty (ps ! i))"
    by auto
  with ps(1,2) show ?thesis
    by auto
qed

theorem line_total_product_witness:
  "list_all normalizable first_items \<and> 0 < length first_items \<and>
   (\<exists>ps amount. buildParsedItems (JArr first_items) = Inr (ps, amount) \<and>
      lineTotal (ps ! 0) = js_mul (price (ps ! 0)) (qty (ps ! 0)) \<and>
      price (ps ! 0) = Finite 10 \<and> qty (ps ! 0) = Finite 2 \<and> lineTotal (ps ! 0) = Finite 20)"
proof -
  have l: "0 < length first_items"
    by (simp add: first_items_def)
  from line_total_product [OF first_items_normalizable l] scenario_one
  have "\<exists>ps amount. buildParsedItems (JArr first_items) = Inr (ps, amount) \<and>
      lineTotal (ps ! 0) = js_mul (price (ps ! 0)) (qty (ps ! 0)) \<and>
      price (ps ! 0) = Finite 10 \<and> qty (ps ! 0) = Finite 2 \<and> lineTotal (ps ! 0) = Finite 20"
    by auto
  with first_items_normalizable l show ?thesis
    by simp
qed

section \<open>The order total aggregator\<close>

text \<open>
  C5. For every normalized sequence, the total amount is the sum of the line totals,
  taken once along the sequence from 0, a line total that is falsy counting as 0; the
  empty sequence has the total 0.
\<close>

theorem aggregator_total:
  "(list_all normalizable its \<longrightarrow>
      (\<exists>ps. buildParsedItems (JArr its) = Inr (ps, spec_totalAmount ps) \<and>
            length ps = length its)) \<and>
   buildParsedItems (JArr []) = Inr ([], Finite 0)"
  using buildParsedItems_returns [of its]
  by (auto simp: spec_totalAmount_def foldl_add_line bindE_def)

theorem aggregator_total_witness:
  "list_all normalizable scenario_items \<and>
   (\<exists>ps. buildParsedItems (JArr scenario_items) = Inr (ps, spec_totalAmount ps) \<and>
      length ps = length scenario_items \<and> spec_totalAmount ps = Finite 8) \<and>
   buildParsedItems (JArr []) = Inr ([], Finite 0)"
proof -
  from aggregator_total [of scenario_items] scenario_items_normalizable scenario_two
  have "\<exists>ps. buildParsedItems (JArr scenario_items) = Inr (ps, spec_totalAmount ps) \<and>
      length ps = length scenario_items \<and> spec_totalAmount ps = Finite 8"
    by auto
  moreover from aggregator_total [of scenario_items]
  have "buildParsedItems (JArr []) = Inr ([], Finite 0)"
    by blast
  ultimately show ?thesis
    using scenario_items_normalizable by blast
qed

section \<open>Idempotence\<close>

text \<open>
  C10. Normalization is idempotent: whenever the normalizer returns a list of canonical
  items and a total, it returns the same list and the same total on that list of items.
\<close>

theorem normalization_idempotent:
  assumes "buildParsedItems its = Inr (ps, amount)"
  shows "buildParsedItems (JArr (map item_object ps)) = Inr (ps, amount)"
proof (cases its)
  case JUndefined
  with assms show ?thesis
    by (auto simp: bindE_def)
next
  case (JArr vs)
  with assms have "mapE parse_item vs = Inr ps" "amount = foldl add_line (Finite 0) ps"
    by (auto simp: bindE_def split: sum.splits)
  then show ?thesis
    using mapE_item_object [OF mapE_canonical] by (simp add: bindE_def)
qed (use assms in auto)

theorem normalization_idempotent_witness:
  "buildParsedItems (JArr scenario_items) = Inr (scenario_parsed, Finite 8) \<and>
   buildParsedItems (JArr (map item_object scenario_parsed)) = Inr (scenario_parsed, Finite 8)"
  using normalization_idempotent [OF scenario_two] scenario_two by simp

section \<open>The order lifecycle\<close>

text \<open>
  C1. For every status-change request on an existing order: a requested status outside
  Pending, Delivered and Cancelled is answered with 400 and the store is left as it was;
  a requested status inside the set is written to the order and answered with 200,
  whatever the current status of the order is (as long as the store carries the update
  out). No other order is touched.
\<close>

theorem patch_status_validation:
  assumes "find_order db i = Some ord"
      and "get_prop req_body ''status'' = Inr v"
  shows "if v \<in> {JStr ''Pending'', JStr ''Delivered'', JStr ''Cancelled''}
         then \<exists>s. v = JStr s \<and>
                (\<not> refuses db (UpdateOrder i (SetStatus s)) \<longrightarrow>
                   (\<exists>db'. patch_order_status db i req_body =
                            (respond 200 (OrderDoc (ord\<lparr>status := s\<rparr>)), db') \<and>
                          find_order db' i = Some (ord\<lparr>status := s\<rparr>) \<and>
                          (\<forall>j. j \<noteq> i \<longrightarrow> find_order db' j = find_order db j)))
         else patch_order_status db i req_body = (respond 400 (Message ''Invalid status''), db)"
proof (cases "v \<in> {JStr ''Pending'', JStr ''Delivered'', JStr ''Cancelled''}")
  case True
  then obtain s where s: "v = JStr s" "s \<in> set valid_statuses"
    by (auto simp: valid_statuses_def)
  have "\<exists>db'. patch_order_status db i req_body =
                 (respond 200 (OrderDoc (ord\<lparr>status := s\<rparr>)), db') \<and>
               find_order db' i = Some (ord\<lparr>status := s\<rparr>) \<and>
               (\<forall>j. j \<noteq> i \<longrightarrow> find_order db' j = find_order db j)"
    if ok: "\<not> refuses db (UpdateOrder i (SetStatus s))"
  proof -
    let ?db' = "db\<lparr>orders := update_first i (apply_update (SetStatus s)) (orders db)\<rparr>"
    have "patch_order_status db i req_body =
            (respond 200 (OrderDoc (ord\<lparr>status := s\<rparr>)), ?db')"
      using assms s ok
      by (simp add: patch_order_status_def catch500_def bindE_def includes_status_def
            findByIdAndUpdate_def)
    moreover have "find_order ?db' i = Some (ord\<lparr>status := s\<rparr>)"
      using assms(1) find_update_first [of i "orders db" ord "apply_update (SetStatus s)"]
      by (simp add: find_order_def)
    moreover have "\<forall>j. j \<noteq> i \<longrightarrow> find_order ?db' j = find_order db j"
      by (simp add: find_order_def find_update_first_other)
    ultimately show ?thesis
      by blast
  qed
  with True s show ?thesis
    by auto
next
  case False
  then have "\<not> includes_status v"
    by (auto simp: includes_status_def valid_statuses_def split: jsval.splits)
  with False assms(2) show ?thesis
    by (auto simp: patch_order_status_def catch500_def bindE_def split: jsval.splits)
qed

theorem patch_status_validation_witness:
  "find_order sample_store ''o1'' = Some sample_order \<and> status sample_order = ''Delivered'' \<and>
   (\<exists>db'. patch_order_status sample_store ''o1'' (JObj [(''status'', JStr ''Pending'')]) =
            (respond 200 (OrderDoc (sample_order\<lparr>status := ''Pending''\<rparr>)), db') \<and>
          find_order db' ''o1'' = Some (sample_order\<lparr>status := ''Pending''\<rparr>)) \<and>
   patch_order_status sample_store ''o1'' (JObj [(''status'', JStr ''Shipped'')]) =
     (respond 400 (Message ''Invalid status''), sample_store)"
proof -
  have f: "find_order sample_store ''o1'' = Some sample_order"
    by (simp add: find_order_def sample_store_def sample_order_def)
  have g: "get_prop (JObj [(''status'', JStr ''Pending'')]) ''status'' = Inr (JStr ''Pending'')"
    by simp
  have h: "get_prop (JObj [(''status'', JStr ''Shipped'')]) ''status'' = Inr (JStr ''Shipped'')"
    by simp
  have r: "\<not> refuses sample_store (UpdateOrder ''o1'' (SetStatus ''Pending''))"
    by (simp add: sample_store_def accepts_all_def)
  from patch_status_validation [OF f g] r
  have "\<exists>db'. patch_order_status sample_store ''o1'' (JObj [(''status'', JStr ''Pending'')]) =
            (respond 200 (OrderDoc (sample_order\<lparr>status := ''Pending''\<rparr>)), db') \<and>
          find_order db' ''o1'' = Some (sample_order\<lparr>status := ''Pending''\<rparr>)"
    by auto
  moreover from patch_status_validation [OF f h]
  have "patch_order_status sample_store ''o1'' (JObj [(''status'', JStr ''Shipped'')]) =
     (respond 400 (Message ''Invalid status''), sample_store)"
    by simp
  moreover have "status sample_order = ''Delivered''"
    by (simp add: sample_order_def)
  ultimately show ?thesis
    using f by blast
qed



section \<open>Deleting an order\<close>

text \<open>
  C7, as amended. Where the store carries the deletion out: a DELETE of an identifier
  that resolves to no record reports zero records deleted and leaves the store as it
  was, with the status 404 from the handler of the second listing and the status 200
  from the handler of the first; a DELETE of an identifier that resolves to a record
  removes that record and reports one record deleted with the status 200, from both.
\<close>

theorem delete_reports_removal:
  assumes "\<not> refuses db (DeleteOrder (js_trim param))"
  shows "(find_order db (js_trim param) = None \<longrightarrow>
            delete_order db param = (respond 404 (Deleted ''Order not found'' 0), db) \<and>
            delete_order_first db param =
              (respond 200 (Deleted ''Order not found or already deleted'' 0), db)) \<and>
         (\<forall>ord. find_order db (js_trim param) = Some ord \<longrightarrow>
            delete_order db param =
              (respond 200 (Deleted ''Order deleted'' 1),
               db\<lparr>orders := remove1 ord (orders db)\<rparr>) \<and>
            delete_order_first db param =
              (respond 200 (Deleted ''Order deleted'' 1),
               db\<lparr>orders := remove1 ord (orders db)\<rparr>))"
  using assms
  by (auto simp: delete_order_def delete_order_first_def deleteOne_def Let_def
        find_order_def remove_first_remove1)

theorem delete_reports_removal_witness:
  "\<not> refuses sample_store (DeleteOrder (js_trim '' o1 '')) \<and>
   find_order sample_store (js_trim '' o1 '') = Some sample_order \<and>
   delete_order sample_store '' o1 '' =
     (respond 200 (Deleted ''Order deleted'' 1), sample_store\<lparr>orders := []\<rparr>) \<and>
   \<not> refuses sample_store (DeleteOrder (js_trim ''zz'')) \<and>
   find_order sample_store (js_trim ''zz'') = None \<and>
   delete_order sample_store ''zz'' = (respond 404 (Deleted ''Order not found'' 0), sample_store) \<and>
   delete_order_first sample_store ''zz'' =
     (respond 200 (Deleted ''Order not found or already deleted'' 0), sample_store)"
proof -
  have t: "js_trim '' o1 '' = ''o1''" "js_trim ''zz'' = ''zz''"
    by code_simp+
  have r: "\<not> refuses sample_store (DeleteOrder k)" for k
    by (simp add: sample_store_def accepts_all_def)
  have f: "find_order sample_store (js_trim '' o1 '') = Some sample_order"
    by (simp add: t find_order_def sample_store_def sample_order_def)
  have g: "find_order sample_store (js_trim ''zz'') = None"
    by (simp add: t find_order_def sample_store_def sample_order_def)
  have o: "orders sample_store = [sample_order]"
    by (simp add: sample_store_def)
  from delete_reports_removal [OF r, of "'' o1 ''"] f o
  have "delete_order sample_store '' o1 '' =
     (respond 200 (Deleted ''Order deleted'' 1), sample_store\<lparr>orders := []\<rparr>)"
    by simp
  moreover from delete_reports_removal [OF r, of "''zz''"] g
  have "delete_order sample_store ''zz'' =
          (respond 404 (Deleted ''Order not found'' 0), sample_store) \<and>
        delete_order_first sample_store ''zz'' =
          (respond 200 (Deleted ''Order not found or already deleted'' 0), sample_store)"
    by simp
  ultimately show ?thesis
    using r f g by blast
qed

text \<open>
  The statement of C7 fails on the handler of the first listing: the identifier
  \<open>abc\<close> resolves to no record of the empty store, and the answer carries 200.
\<close>

theorem delete_missing_counterexample:
  "find_order empty_store (js_trim ''abc'') = None \<and>
   \<not> refuses empty_store (DeleteOrder (js_trim ''abc'')) \<and>
   code (fst (delete_order_first empty_store ''abc'')) = 200 \<and>
   code (fst (delete_order_first empty_store ''abc'')) \<noteq> 404"
  by (simp add: delete_order_first_def deleteOne_def find_order_def empty_store_def
        accepts_all_def respond_def)


section \<open>Creating a product\<close>

text \<open>
  C8, as amended. For every product-creation request with a body: the handler of the
  second listing answers 400 exactly when the name is missing (absent, \<open>null\<close> or
  otherwise falsy) or the list price is missing (absent or \<open>null\<close>), so the price and the
  sale price are optional there, and a request without them creates the product when the
  store accepts it; the handler of the first listing answers 400 exactly when the name,
  the list price or the price is missing. A rejected request leaves the store as it was.
\<close>

theorem product_required_fields:
  assumes "\<not> nullish req_body"
  shows "(code (fst (post_product db new_id now req_body)) = 400 \<longleftrightarrow>
            \<not> truthy (field_value req_body ''name'') \<or> nullish (field_value req_body ''mrp'')) \<and>
         (code (fst (post_product_first db new_id now req_body)) = 400 \<longleftrightarrow>
            \<not> truthy (field_value req_body ''name'') \<or> nullish (field_value req_body ''mrp'') \<or>
            nullish (field_value req_body ''price'')) \<and>
         (code (fst (post_product db new_id now req_body)) = 400 \<longrightarrow>
            post_product db new_id now req_body =
              (respond 400 (Message ''Name and MRP are required''), db)) \<and>
         (code (fst (post_product_first db new_id now req_body)) = 400 \<longrightarrow>
            post_product_first db new_id now req_body =
              (respond 400 (Message ''Name, MRP and price are required''), db)) \<and>
         (\<forall>s m. field_value req_body ''name'' = JStr s \<and> s \<noteq> [] \<and>
                \<not> nullish (field_value req_body ''mrp'') \<and>
                to_number (field_value req_body ''mrp'') = Inr m \<and>
                field_value req_body ''price'' = JUndefined \<and>
                field_value req_body ''salePrice'' = JUndefined \<and>
                \<not> refuses db (SaveProduct
                     \<lparr>product_id = new_id, product_name = js_trim s, product_mrp = m,
                      product_price = None, product_salePrice = None,
                      product_createdAt = now\<rparr>) \<longrightarrow>
            post_product db new_id now req_body =
              (respond 201 (ProductDoc
                 \<lparr>product_id = new_id, product_name = js_trim s, product_mrp = m,
                  product_price = None, product_salePrice = None, product_createdAt = now\<rparr>),
               db\<lparr>products := products db @
                 [\<lparr>product_id = new_id, product_name = js_trim s, product_mrp = m,
                   product_price = None, product_salePrice = None,
                   product_createdAt = now\<rparr>]\<rparr>))"
proof -
  have a: "get_prop req_body k = Inr (field_value req_body k)" for k
    using assms by (rule get_prop_returns)
  have "code (fst (post_product db new_id now req_body)) = 400 \<longleftrightarrow>
            \<not> truthy (field_value req_body ''name'') \<or> nullish (field_value req_body ''mrp'')"
    by (auto simp: post_product_def a bindE_def catch500_def respond_def
          save_product_def Let_def split: sum.splits)
  moreover have "code (fst (post_product_first db new_id now req_body)) = 400 \<longleftrightarrow>
            \<not> truthy (field_value req_body ''name'') \<or> nullish (field_value req_body ''mrp'') \<or>
            nullish (field_value req_body ''price'')"
    by (auto simp: post_product_first_def a bindE_def catch500_def respond_def
          save_product_def Let_def split: sum.splits)
  moreover have "code (fst (post_product db new_id now req_body)) = 400 \<longrightarrow>
            post_product db new_id now req_body =
              (respond 400 (Message ''Name and MRP are required''), db)"
    by (auto simp: post_product_def a bindE_def catch500_def respond_def
          save_product_def Let_def split: sum.splits)
  moreover have "code (fst (post_product_first db new_id now req_body)) = 400 \<longrightarrow>
            post_product_first db new_id now req_body =
              (respond 400 (Message ''Name, MRP and price are required''), db)"
    by (auto simp: post_product_first_def a bindE_def catch500_def respond_def
          save_product_def Let_def split: sum.splits)
  moreover have "post_product db new_id now req_body =
              (respond 201 (ProductDoc
                 \<lparr>product_id = new_id, product_name = js_trim s, product_mrp = m,
                  product_price = None, product_salePrice = None, product_createdAt = now\<rparr>),
               db\<lparr>products := products db @
                 [\<lparr>product_id = new_id, product_name = js_trim s, product_mrp = m,
                   product_price = None, product_salePrice = None,
                   product_createdAt = now\<rparr>]\<rparr>)"
    if "field_value req_body ''name'' = JStr s" "s \<noteq> []"
       "\<not> nullish (field_value req_body ''mrp'')"
       "to_number (field_value req_body ''mrp'') = Inr m"
       "field_value req_body ''price'' = JUndefined"
       "field_value req_body ''salePrice'' = JUndefined"
       "\<not> refuses db (SaveProduct
                     \<lparr>product_id = new_id, product_name = js_trim s, product_mrp = m,
                      product_price = None, product_salePrice = None,
                      product_createdAt = now\<rparr>)" for s m
    using that
    by (simp add: post_product_def a bindE_def catch500_def save_product_def Let_def
          trim_method_def optional_number_def nullish_def)
  ultimately show ?thesis
    by blast
qed

theorem product_required_fields_witness:
  "\<not> nullish (JObj [(''name'', JStr ''Soap''), (''mrp'', JNum (Finite 12))]) \<and>
   post_product empty_store ''p1'' 3 (JObj [(''name'', JStr ''Soap''), (''mrp'', JNum (Finite 12))]) =
     (respond 201 (ProductDoc
        \<lparr>product_id = ''p1'', product_name = ''Soap'', product_mrp = Finite 12,
         product_price = None, product_salePrice = None, product_createdAt = 3\<rparr>),
      empty_store\<lparr>products :=
        [\<lparr>product_id = ''p1'', product_name = ''Soap'', product_mrp = Finite 12,
          product_price = None, product_salePrice = None, product_createdAt = 3\<rparr>]\<rparr>) \<and>
   code (fst (post_product_first empty_store ''p1'' 3
     (JObj [(''name'', JStr ''Soap''), (''mrp'', JNum (Finite 12))]))) = 400 \<and>
   post_product empty_store ''p1'' 3 (JObj [(''name'', JStr []), (''mrp'', JNum (Finite 12))]) =
     (respond 400 (Message ''Name and MRP are required''), empty_store)"
proof -
  let ?b = "JObj [(''name'', JStr ''Soap''), (''mrp'', JNum (Finite 12))]"
  let ?c = "JObj [(''name'', JStr []), (''mrp'', JNum (Finite 12))]"
  have n: "\<not> nullish ?b" "\<not> nullish ?c"
    by (simp_all add: nullish_def)
  have t: "js_trim ''Soap'' = ''Soap''"
    by code_simp
  have v: "field_value ?b ''name'' = JStr ''Soap''" "field_value ?b ''mrp'' = JNum (Finite 12)"
    "field_value ?b ''price'' = JUndefined" "field_value ?b ''salePrice'' = JUndefined"
    "field_value ?c ''name'' = JStr []" "field_value ?c ''mrp'' = JNum (Finite 12)"
    by (simp_all add: field_value_def)
  have r: "\<not> refuses empty_store op" for op
    by (simp add: empty_store_def accepts_all_def)
  have p: "products empty_store = []"
    by (simp add: empty_store_def)
  from product_required_fields [OF n(1), of empty_store "''p1''" 3] v r t p
  have "post_product empty_store ''p1'' 3 ?b =
     (respond 201 (ProductDoc
        \<lparr>product_id = ''p1'', product_name = ''Soap'', product_mrp = Finite 12,
         product_price = None, product_salePrice = None, product_createdAt = 3\<rparr>),
      empty_store\<lparr>products :=
        [\<lparr>product_id = ''p1'', product_name = ''Soap'', product_mrp = Finite 12,
          product_price = None, product_salePrice = None, product_createdAt = 3\<rparr>]\<rparr>) \<and>
     code (fst (post_product_first empty_store ''p1'' 3 ?b)) = 400"
    by (simp add: nullish_def)
  moreover from product_required_fields [OF n(2), of empty_store "''p1''" 3] v
  have "post_product empty_store ''p1'' 3 ?c =
     (respond 400 (Message ''Name and MRP are required''), empty_store)"
    by simp
  ultimately show ?thesis
    using n by blast
qed

text \<open>
  The statement of C8 fails on the handler of the first listing: a request that gives
  the name and the list price, and no price, is answered with 400.
\<close>

theorem product_price_counterexample:
  "truthy (field_value (JObj [(''name'', JStr ''Soap''), (''mrp'', JNum (Finite 12))]) ''name'') \<and>
   \<not> nullish (field_value (JObj [(''name'', JStr ''Soap''), (''mrp'', JNum (Finite 12))]) ''mrp'') \<and>
   post_product_first empty_store ''p1'' 3
     (JObj [(''name'', JStr ''Soap''), (''mrp'', JNum (Finite 12))]) =
     (respond 400 (Message ''Name, MRP and price are required''), empty_store)"
  by (simp add: post_product_first_def field_value_def nullish_def bindE_def catch500_def)

section \<open>Creating an order\<close>

text \<open>
  C9, as amended. For every order-creation request with a body: when the shop is
  missing, or the items are no list or an empty list, the answer is 400 and no order is
  created; otherwise, when every item is neither \<open>null\<close> nor \<open>undefined\<close> and has a
  \<open>qty\<close>, a \<open>price\<close> and an \<open>mrp\<close> that convert with \<open>Number\<close> without raising, the
  normalizer and the aggregator run on the items and, the store accepting the document,
  an order with their result and the status Pending is appended and returned with 201.
\<close>

theorem order_creation_validation:
  assumes "\<not> nullish req_body"
  shows "(\<not> truthy (field_value req_body ''shopId'') \<or>
          \<not> is_array (field_value req_body ''items'') \<or>
          field_value req_body ''items'' = JArr [] \<longrightarrow>
            post_order db new_id now req_body =
              (respond 400 (Message ''Shop and items are required''), db)) \<and>
         (\<forall>its. truthy (field_value req_body ''shopId'') \<and>
                field_value req_body ''items'' = JArr its \<and> its \<noteq> [] \<and>
                list_all normalizable its \<longrightarrow>
            (\<exists>ps amount ord.
               buildParsedItems (JArr its) = Inr (ps, amount) \<and>
               ord = \<lparr>oid = new_id, shopId = field_value req_body ''shopId'',
                      shopName = field_value req_body ''shopName'', items = ps,
                      totalAmount = amount, status = ''Pending'', createdAt = now\<rparr> \<and>
               (\<not> refuses db (SaveOrder ord) \<longrightarrow>
                  post_order db new_id now req_body =
                    (respond 201 (OrderDoc ord), db\<lparr>orders := orders db @ [ord]\<rparr>))))"
proof -
  have a: "get_prop req_body k = Inr (field_value req_body k)" for k
    using assms by (rule get_prop_returns)
  have bad: "post_order db new_id now req_body =
              (respond 400 (Message ''Shop and items are required''), db)"
    if "bad_order_body (field_value req_body ''shopId'') (field_value req_body ''items'')"
    using that by (simp add: post_order_def a bindE_def catch500_def)
  have good: "\<exists>ps amount ord.
               buildParsedItems (JArr its) = Inr (ps, amount) \<and>
               ord = \<lparr>oid = new_id, shopId = field_value req_body ''shopId'',
                      shopName = field_value req_body ''shopName'', items = ps,
                      totalAmount = amount, status = ''Pending'', createdAt = now\<rparr> \<and>
               (\<not> refuses db (SaveOrder ord) \<longrightarrow>
                  post_order db new_id now req_body =
                    (respond 201 (OrderDoc ord), db\<lparr>orders := orders db @ [ord]\<rparr>))"
    if h: "truthy (field_value req_body ''shopId'')" "field_value req_body ''items'' = JArr its"
      "its \<noteq> []" "list_all normalizable its" for its
  proof -
    from buildParsedItems_returns [OF h(4)] obtain ps where
      ps: "buildParsedItems (JArr its) = Inr (ps, foldl add_line (Finite 0) ps)"
      by blast
    have nb: "\<not> bad_order_body (field_value req_body ''shopId'') (JArr its)"
      using h(1,3) by (simp add: bad_order_body_def is_array_def)
    show ?thesis
      using ps nb h(2)
      by (auto simp: post_order_def a bindE_def catch500_def save_order_def Let_def)
  qed
  from bad good show ?thesis
    by (auto simp: bad_order_body_def)
qed

theorem order_creation_validation_witness:
  "\<not> nullish (JObj [(''shopId'', JStr ''s1''), (''items'', JArr scenario_items)]) \<and>
   post_order empty_store ''o9'' 42 (JObj [(''shopId'', JStr ''s1''), (''items'', JArr scenario_items)]) =
     (respond 201 (OrderDoc
        \<lparr>oid = ''o9'', shopId = JStr ''s1'', shopName = JUndefined, items = scenario_parsed,
         totalAmount = Finite 8, status = ''Pending'', createdAt = 42\<rparr>),
      empty_store\<lparr>orders :=
        [\<lparr>oid = ''o9'', shopId = JStr ''s1'', shopName = JUndefined, items = scenario_parsed,
          totalAmount = Finite 8, status = ''Pending'', createdAt = 42\<rparr>]\<rparr>) \<and>
   post_order empty_store ''o9'' 42 (JObj [(''shopId'', JStr ''s1''), (''items'', JArr [])]) =
     (respond 400 (Message ''Shop and items are required''), empty_store)"
proof -
  let ?b = "JObj [(''shopId'', JStr ''s1''), (''items'', JArr scenario_items)]"
  let ?c = "JObj [(''shopId'', JStr ''s1''), (''items'', JArr [])]"
  have n: "\<not> nullish ?b" "\<not> nullish ?c"
    by (simp_all add: nullish_def)
  have v: "field_value ?b ''shopId'' = JStr ''s1''" "field_value ?b ''shopName'' = JUndefined"
    "field_value ?b ''items'' = JArr scenario_items" "field_value ?c ''items'' = JArr []"
    by (simp_all add: field_value_def)
  have e: "scenario_items \<noteq> []"
    by (simp add: scenario_items_def)
  have r: "\<not> refuses empty_store op" for op
    by (simp add: empty_store_def accepts_all_def)
  have o: "orders empty_store = []"
    by (simp add: empty_store_def)
  from order_creation_validation [OF n(1), of empty_store "''o9''" 42]
  have "\<exists>ps amount ord.
               buildParsedItems (JArr scenario_items) = Inr (ps, amount) \<and>
               ord = \<lparr>oid = ''o9'', shopId = field_value ?b ''shopId'',
                      shopName = field_value ?b ''shopName'', items = ps,
                      totalAmount = amount, status = ''Pending'', createdAt = 42\<rparr> \<and>
               (\<not> refuses empty_store (SaveOrder ord) \<longrightarrow>
                  post_order empty_store ''o9'' 42 ?b =
                    (respond 201 (OrderDoc ord), empty_store\<lparr>orders := orders empty_store @ [ord]\<rparr>))"
    using v e scenario_items_normalizable by simp
  with scenario_two r o v
  have "post_order empty_store ''o9'' 42 ?b =
     (respond 201 (OrderDoc
        \<lparr>oid = ''o9'', shopId = JStr ''s1'', shopName = JUndefined, items = scenario_parsed,
         totalAmount = Finite 8, status = ''Pending'', createdAt = 42\<rparr>),
      empty_store\<lparr>orders :=
        [\<lparr>oid = ''o9'', shopId = JStr ''s1'', shopName = JUndefined, items = scenario_parsed,
          totalAmount = Finite 8, status = ''Pending'', createdAt = 42\<rparr>]\<rparr>)"
    by auto
  moreover from order_creation_validation [OF n(2), of empty_store "''o9''" 42] v
  have "post_order empty_store ''o9'' 42 ?c =
     (respond 400 (Message ''Shop and items are required''), empty_store)"
    by simp
  ultimately show ?thesis
    using n by blast
qed

text \<open>
  The statement of C9 fails: a request with a shop and the items \<open>[null]\<close> passes the
  check of the body, the normalizer raises on the item, and the answer is 500 with no
  order created, where the statement has an order created.
\<close>

theorem order_creation_counterexample:
  "truthy (field_value (JObj [(''shopId'', JStr ''s1''), (''items'', JArr [JNull])]) ''shopId'') \<and>
   is_array (field_value (JObj [(''shopId'', JStr ''s1''), (''items'', JArr [JNull])]) ''items'') \<and>
   field_value (JObj [(''shopId'', JStr ''s1''), (''items'', JArr [JNull])]) ''items'' \<noteq> JArr [] \<and>
   post_order empty_store ''o9'' 42 (JObj [(''shopId'', JStr ''s1''), (''items'', JArr [JNull])]) =
     (respond 500 (Message ''Error creating order''), empty_store)"
  by (simp add: field_value_def is_array_def post_order_def bad_order_body_def parse_item_def
        num_field_def bindE_def catch500_def)

end
